theory Spec2Isabelle
  imports Main
begin

section \<open>Values, documents and the store\<close>

text \<open>
  Values of a parsed JSON request body. \<open>JUndefined\<close> stands for a property that is
  absent from its object. Numbers are integers here: the code only tests a number for
  truthiness and compares it with strings.
\<close>

datatype json =
    JUndefined
  | JNull
  | JBool bool
  | JNum int
  | JStr string
  | JArr "json list"
  | JObj "(string \<times> json) list"

text \<open>JavaScript's truthiness, as \<open>!x\<close> tests it.\<close>

fun truthy :: "json \<Rightarrow> bool" where
  "truthy JUndefined = False"
| "truthy JNull = False"
| "truthy (JBool b) = b"
| "truthy (JNum n) = (n \<noteq> 0)"
| "truthy (JStr s) = (s \<noteq> [])"
| "truthy (JArr xs) = True"
| "truthy (JObj kvs) = True"

text \<open>\<open>Array.isArray\<close>.\<close>

fun isArray :: "json \<Rightarrow> bool" where
  "isArray (JArr xs) = True"
| "isArray v = False"

text \<open>The elements of an array (nothing for any other value).\<close>

fun elements :: "json \<Rightarrow> json list" where
  "elements (JArr xs) = xs"
| "elements v = []"

text \<open>
  Documents of the collections in \<open>models/models.js\<close>. An identifier (\<open>_id\<close>) is the
  string form of the ObjectId; a date is its time value, the milliseconds since the epoch;
  \<open>duration\<close> is a whole number of minutes.
\<close>

type_synonym objid = string

record option_doc =
  option_id :: objid
  option_text :: string
  is_correct :: bool

record question_doc =
  question_oid :: objid
  question_text :: string
  options :: "option_doc list"
  is_multiple_choice :: bool

record quiz_doc =
  quiz_oid :: objid
  quiz_name :: string
  class_id :: objid
  start_date :: int
  duration :: int
  questions :: "question_doc list"

record class_doc =
  class_oid :: objid
  class_name :: string
  teacher_id :: objid
  students :: "objid list"
  quizzes :: "objid list"

record user_doc =
  user_oid :: objid
  username :: string
  full_name :: string
  email :: string

text \<open>
  One element of the \<open>responses\<close> array of a request body, with the two properties the
  handler reads. Either may be absent or hold any value.
\<close>

record response =
  question_id :: json
  selected_options :: json

record studentResponse =
  resp_student_id :: objid
  resp_quiz_id :: objid
  responses :: "response list"

record studentResult =
  res_student_id :: objid
  res_quiz_id :: objid
  score :: nat
  submitted_at :: int
  out_of :: nat

text \<open>
  The document store: one list per collection, in insertion order. \<open>findById\<close> and
  \<open>findOne\<close> return the first document that matches, \<open>save\<close> of a new document
  appends it.

  \<open>save\<close> validates the document against its schema first. The schemas of StudentResponse
  and StudentResult type \<open>student_id\<close>, \<open>quiz_id\<close>, \<open>question_id\<close> and the elements of
  \<open>selected_options\<close> as ObjectId: when one of these values does not cast to an ObjectId,
  \<open>save\<close> rejects with a ValidationError and writes nothing (\<open>None\<close> here). Which values
  cast is decided by the database driver, outside the repository, so the saves and the
  handlers that call them take that test as the parameter \<open>castable\<close>.
\<close>

record store =
  teachers :: "user_doc list"
  student_users :: "user_doc list"
  classes :: "class_doc list"
  quiz_coll :: "quiz_doc list"
  studentResponses :: "studentResponse list"
  studentResults :: "studentResult list"

definition Teacher_findById :: "store \<Rightarrow> objid \<Rightarrow> user_doc option" where
  "Teacher_findById st i = find (\<lambda>u. user_oid u = i) (teachers st)"

definition Student_findById :: "store \<Rightarrow> objid \<Rightarrow> user_doc option" where
  "Student_findById st i = find (\<lambda>u. user_oid u = i) (student_users st)"

definition Class_findById :: "store \<Rightarrow> objid \<Rightarrow> class_doc option" where
  "Class_findById st i = find (\<lambda>c. class_oid c = i) (classes st)"

definition Quiz_findById :: "store \<Rightarrow> objid \<Rightarrow> quiz_doc option" where
  "Quiz_findById st i = find (\<lambda>q. quiz_oid q = i) (quiz_coll st)"

definition StudentResponse_findOne :: "store \<Rightarrow> objid \<Rightarrow> objid \<Rightarrow> studentResponse option" where
  "StudentResponse_findOne st sid qid =
     find (\<lambda>r. resp_student_id r = sid \<and> resp_quiz_id r = qid) (studentResponses st)"

definition StudentResult_findOne :: "store \<Rightarrow> objid \<Rightarrow> objid \<Rightarrow> studentResult option" where
  "StudentResult_findOne st sid qid =
     find (\<lambda>r. res_student_id r = sid \<and> res_quiz_id r = qid) (studentResults st)"

definition valid_studentResponse :: "(json \<Rightarrow> bool) \<Rightarrow> studentResponse \<Rightarrow> bool" where
  "valid_studentResponse castable d \<longleftrightarrow>
     castable (JStr (resp_student_id d)) \<and> castable (JStr (resp_quiz_id d))
     \<and> list_all (\<lambda>r. castable (question_id r)
                      \<and> list_all castable (elements (selected_options r)))
          (responses d)"

definition valid_studentResult :: "(json \<Rightarrow> bool) \<Rightarrow> studentResult \<Rightarrow> bool" where
  "valid_studentResult castable d \<longleftrightarrow>
     castable (JStr (res_student_id d)) \<and> castable (JStr (res_quiz_id d))"

definition StudentResponse_save ::
  "(json \<Rightarrow> bool) \<Rightarrow> studentResponse \<Rightarrow> store \<Rightarrow> store option" where
  "StudentResponse_save castable d st =
     (if valid_studentResponse castable d
      then Some (st\<lparr>studentResponses := studentResponses st @ [d]\<rparr>)
      else None)"

definition StudentResult_save ::
  "(json \<Rightarrow> bool) \<Rightarrow> studentResult \<Rightarrow> store \<Rightarrow> store option" where
  "StudentResult_save castable d st =
     (if valid_studentResult castable d
      then Some (st\<lparr>studentResults := studentResults st @ [d]\<rparr>)
      else None)"

section \<open>Dates\<close>

text \<open>
  \<open>Date.prototype.getMinutes\<close> and \<open>setMinutes\<close> work in local time. The zone is a fixed
  offset \<open>tz\<close>, in minutes east of UTC. \<open>setMinutes\<close> keeps day, hour, seconds and
  milliseconds of the local time and replaces the minutes, which may lie outside 0..59;
  a result beyond the range of a Date is the invalid date, \<open>None\<close> here.
\<close>

definition LocalTime :: "int \<Rightarrow> int \<Rightarrow> int" where
  "LocalTime tz t = t + tz * 60000"

definition getMinutes :: "int \<Rightarrow> int \<Rightarrow> int" where
  "getMinutes tz t = (LocalTime tz t div 60000) mod 60"

definition TimeClip :: "int \<Rightarrow> int option" where
  "TimeClip t = (if \<bar>t\<bar> \<le> 8640000000000000 then Some t else None)"

definition setMinutes :: "int \<Rightarrow> int \<Rightarrow> int \<Rightarrow> int option" where
  "setMinutes tz t m =
     (let l = LocalTime tz t;
          day = l div 86400000;
          hour = (l div 3600000) mod 24;
          sec = (l div 1000) mod 60;
          ms = l mod 1000;
          date = day * 86400000 + (hour * 3600000 + m * 60000 + sec * 1000 + ms)
      in TimeClip (date - tz * 60000))"

text \<open>\<open>a > b\<close> on dates where \<open>b\<close> may be invalid: a comparison with the invalid date is false.\<close>

fun date_gt :: "int \<Rightarrow> int option \<Rightarrow> bool" where
  "date_gt a None = False"
| "date_gt a (Some b) = (a > b)"

text \<open>
  The clock readings of one request, in the order the handler takes them: \<open>t_end\<close> is the
  \<open>new Date()\<close> that becomes \<open>endDate\<close>, \<open>t_cur\<close> the \<open>new Date()\<close> of \<open>currentDate\<close>,
  \<open>t_save\<close> the \<open>Date.now\<close> default of \<open>submitted_at\<close>.
\<close>

record clock =
  t_end :: int
  t_cur :: int
  t_save :: int

datatype windowState = NOT_STARTED | ACTIVE | ENDED

text \<open>
  The window test of \<open>GET /:classId/quizzes/:quizId\<close>:
  \<^verbatim>\<open>
  const endDate = new Date();
  endDate.setMinutes(quiz.start_date.getMinutes() + quiz.duration);
  const currentDate = new Date();
  if(!quiz || currentDate > quiz.start_date && currentDate > endDate){ ... already passed }
  if(!quiz || currentDate < quiz.start_date){ ... not started }
  \<close>
\<close>

definition view_window :: "int \<Rightarrow> clock \<Rightarrow> quiz_doc \<Rightarrow> windowState" where
  "view_window tz clk quiz =
     (let endDate = setMinutes tz (t_end clk) (getMinutes tz (start_date quiz) + duration quiz);
          currentDate = t_cur clk
      in if currentDate > start_date quiz \<and> date_gt currentDate endDate then ENDED
         else if currentDate < start_date quiz then NOT_STARTED
         else ACTIVE)"

text \<open>The same test as \<open>POST /:classId/quizzes/:quizId/responses\<close> writes it.\<close>

definition submit_window :: "int \<Rightarrow> clock \<Rightarrow> quiz_doc \<Rightarrow> windowState" where
  "submit_window tz clk quiz =
     (let endDate = setMinutes tz (t_end clk) (getMinutes tz (start_date quiz) + duration quiz);
          currentDate = t_cur clk
      in if currentDate > start_date quiz \<and> date_gt currentDate endDate then ENDED
         else if currentDate < start_date quiz then NOT_STARTED
         else ACTIVE)"

text \<open>
  The window of the specification: \<open>end = start_date + duration minutes\<close>, not started
  before \<open>start_date\<close>, ended after \<open>end\<close>, active otherwise.
\<close>

definition spec_windowState :: "int \<Rightarrow> int \<Rightarrow> int \<Rightarrow> windowState" where
  "spec_windowState now start dur =
     (if now < start then NOT_STARTED
      else if now > start + dur * 60000 then ENDED
      else ACTIVE)"

section \<open>Authentication middleware\<close>

text \<open>
  The payload of a verified token. \<open>role\<close> is the string the token carries.
\<close>

record decoded =
  user_id :: objid
  token_username :: string
  role :: string

text \<open>
  The outcome of \<open>jwt.verify(token, process.env.JWT_SECRET)\<close> on the second word of the
  \<open>authorization\<close> header: the payload, or one of the two kinds of exception that
  \<open>authenticateToken\<close> tells apart. The token library is outside the repository, so the
  middleware takes it as the parameter \<open>verify\<close>.
\<close>

datatype verified = Payload decoded | JsonWebTokenError | OtherTokenError

datatype reply =
    ErrorReply nat string
  | QuizReply quiz_doc
  | SubmitReply nat nat
  | ResultReply nat nat

definition authenticateToken ::
  "(string \<Rightarrow> verified) \<Rightarrow> store \<Rightarrow> string option \<Rightarrow> reply + decoded" where
  "authenticateToken verify st authorization =
     (case authorization of
        None \<Rightarrow> Inl (ErrorReply 401 ''Authentication token missing'')
      | Some token \<Rightarrow>
          if token = [] then Inl (ErrorReply 401 ''Authentication token missing'')
          else (case verify token of
                  JsonWebTokenError \<Rightarrow> Inl (ErrorReply 401 ''Invalid token'')
                | OtherTokenError \<Rightarrow> Inl (ErrorReply 401 ''Token Expired or Invalid'')
                | Payload d \<Rightarrow>
                    (let user = (if role d = ''teacher'' then Teacher_findById st (user_id d)
                                 else if role d = ''student'' then Student_findById st (user_id d)
                                 else None)
                     in case user of
                          None \<Rightarrow> Inl (ErrorReply 404 ''User not found'')
                        | Some u \<Rightarrow> Inr d)))"

section \<open>Viewing a quiz\<close>

text \<open>
  \<open>GET /:classId/quizzes/:quizId\<close>. The handler runs behind \<open>authenticateToken\<close>, so
  \<open>req.user\<close> is a payload. The reply \<open>QuizReply quiz\<close> is \<open>res.json({ quiz })\<close>: the
  stored document as it is.
\<close>

definition get_quiz :: "int \<Rightarrow> clock \<Rightarrow> decoded \<Rightarrow> objid \<Rightarrow> objid \<Rightarrow> store \<Rightarrow> reply" where
  "get_quiz tz clk d classId quizId st =
     (if role d \<noteq> ''teacher'' \<and> role d \<noteq> ''student''
      then ErrorReply 403 ''Forbidden - Only authenticated users can access this endpoint''
      else case Class_findById st classId of
        None \<Rightarrow> ErrorReply 404 ''Class not found''
      | Some myClass \<Rightarrow>
          if \<not> (teacher_id myClass = user_id d \<or> user_id d \<in> set (students myClass))
          then ErrorReply 403 ''User is not authorized to access this quiz''
          else (case Quiz_findById st quizId of
            None \<Rightarrow> ErrorReply 404 ''Quiz not found''
          | Some quiz \<Rightarrow>
              if role d = ''student'' then
                (case view_window tz clk quiz of
                   ENDED \<Rightarrow> ErrorReply 403 ''Forbidden - Quiz has already passed''
                 | NOT_STARTED \<Rightarrow> ErrorReply 403 ''Forbidden - Quiz has not started''
                 | ACTIVE \<Rightarrow>
                     (case StudentResponse_findOne st (user_id d) quizId of
                        Some isStudentTakeExam \<Rightarrow>
                          ErrorReply 403 ''Forbidden - Student has already taken the Quiz !''
                      | None \<Rightarrow> QuizReply quiz))
              else QuizReply quiz))"

section \<open>Scoring\<close>

text \<open>
  \<open>arraysEqual\<close> of \<open>utils/calculateResult.js\<close>. \<open>arr1\<close> holds the identifiers of the
  correct options (strings), \<open>arr2\<close> the submitted values; \<open>!==\<close> between a string and a
  value holds unless the value is that very string. The loop runs on the index, as in the
  source, and only after the lengths were found equal.
\<close>

function arraysEqual_from :: "nat \<Rightarrow> string list \<Rightarrow> json list \<Rightarrow> bool" where
  "arraysEqual_from i arr1 arr2 =
     (if i < length arr1
      then (if JStr (arr1 ! i) \<noteq> arr2 ! i then False else arraysEqual_from (i + 1) arr1 arr2)
      else True)"
  by pat_completeness auto
termination
  by (relation "measure (\<lambda>(i, arr1, arr2). length arr1 - i)") auto

declare arraysEqual_from.simps [simp del]

definition arraysEqual :: "string list \<Rightarrow> json list \<Rightarrow> bool" where
  "arraysEqual arr1 arr2 =
     (if length arr1 \<noteq> length arr2 then False else arraysEqual_from 0 arr1 arr2)"

record correctResponse =
  cr_question_id :: string
  cr_selected_options :: "string list"

text \<open>
  The body of the \<open>forEach\<close> in \<open>calculateResults\<close>: one submitted response and the
  running score. \<open>calculateResults\<close> is reached only after the handler found every
  \<open>selected_options\<close> to be an array, whose elements \<open>elements\<close> reads. When the save
  of the StudentResult rejects, so does \<open>calculateResults\<close> (\<open>None\<close>).
\<close>

definition forEach_body :: "correctResponse list \<Rightarrow> response \<Rightarrow> nat \<Rightarrow> nat" where
  "forEach_body correctResponses submittedResponse points =
     (case find (\<lambda>r. JStr (cr_question_id r) = question_id submittedResponse) correctResponses of
        None \<Rightarrow> points
      | Some correctResponse \<Rightarrow>
          if arraysEqual (cr_selected_options correctResponse)
               (elements (selected_options submittedResponse))
          then points + 1 else points)"

definition calculateResults ::
  "(json \<Rightarrow> bool) \<Rightarrow> int \<Rightarrow> objid \<Rightarrow> objid \<Rightarrow> correctResponse list \<Rightarrow> response list \<Rightarrow> nat
     \<Rightarrow> store \<Rightarrow> (nat \<times> store) option" where
  "calculateResults castable now studentId quizId correctResponses submittedResponses
     numberOfQuestions st =
     (let points = fold (forEach_body correctResponses) submittedResponses 0;
          studentResult = \<lparr>res_student_id = studentId, res_quiz_id = quizId, score = points,
                           submitted_at = now, out_of = numberOfQuestions\<rparr>
      in case StudentResult_save castable studentResult st of
           None \<Rightarrow> None
         | Some st' \<Rightarrow> Some (points, st'))"

section \<open>Submitting responses\<close>

record submit_body =
  student_id :: objid
  body_responses :: "response list"

text \<open>
  The loop over \<open>responses\<close>: it leaves the handler with status 400 at the first element
  that fails the test (\<open>None\<close>), and otherwise collects \<open>allResponses\<close>.
\<close>

fun collectResponses :: "response list \<Rightarrow> response list \<Rightarrow> response list option" where
  "collectResponses [] allResponses = Some allResponses"
| "collectResponses (r # rest) allResponses =
     (if \<not> truthy (question_id r) \<or> \<not> truthy (selected_options r) \<or> \<not> isArray (selected_options r)
      then None
      else collectResponses rest
             (allResponses @ [\<lparr>question_id = question_id r, selected_options = selected_options r\<rparr>]))"

definition correctResponses_of :: "quiz_doc \<Rightarrow> correctResponse list" where
  "correctResponses_of quiz =
     map (\<lambda>question. \<lparr>cr_question_id = question_oid question,
                       cr_selected_options = map option_id (filter is_correct (options question))\<rparr>)
         (questions quiz)"

text \<open>
  \<open>POST /:classId/quizzes/:quizId/responses\<close>. The handler reads \<open>quiz.start_date\<close> before
  it tests \<open>!quiz\<close>: with no quiz that read throws a TypeError, which the \<open>catch\<close> answers
  with status 500. The same \<open>catch\<close> answers a save that rejects; what was saved before
  stays.
\<close>

definition post_quiz_responses ::
  "(json \<Rightarrow> bool) \<Rightarrow> int \<Rightarrow> clock \<Rightarrow> decoded \<Rightarrow> objid \<Rightarrow> objid \<Rightarrow> submit_body \<Rightarrow> store
     \<Rightarrow> reply \<times> store" where
  "post_quiz_responses castable tz clk d classId quizId body st =
     (if role d \<noteq> ''student''
      then (ErrorReply 403 ''Forbidden - Only authenticated students can access this endpoint'', st)
      else case Quiz_findById st quizId of
        None \<Rightarrow> (ErrorReply 500 ''Internal Server Error'', st)
      | Some quiz \<Rightarrow>
          (case submit_window tz clk quiz of
             ENDED \<Rightarrow> (ErrorReply 403 ''Forbidden - Quiz has already passed'', st)
           | NOT_STARTED \<Rightarrow> (ErrorReply 403 ''Forbidden - Quiz has not started'', st)
           | ACTIVE \<Rightarrow>
               (case StudentResponse_findOne st (student_id body) quizId of
                  Some isStudentTakeExam \<Rightarrow>
                    (ErrorReply 403 ''Forbidden - Student has already taken the Quiz !'', st)
                | None \<Rightarrow>
                    (case collectResponses (body_responses body) [] of
                       None \<Rightarrow> (ErrorReply 400 ''Invalid format for response'', st)
                     | Some allResponses \<Rightarrow>
                         (let correctResponses = correctResponses_of quiz;
                              studentResponseinfo =
                                \<lparr>resp_student_id = student_id body, resp_quiz_id = quizId,
                                 responses = allResponses\<rparr>
                          in case StudentResponse_save castable studentResponseinfo st of
                               None \<Rightarrow> (ErrorReply 500 ''Internal Server Error'', st)
                             | Some st1 \<Rightarrow>
                                 (let numberOfQuestions = length (questions quiz)
                                  in case calculateResults castable (t_save clk)
                                            (student_id body) quizId correctResponses
                                            (body_responses body) numberOfQuestions st1 of
                                       None \<Rightarrow> (ErrorReply 500 ''Internal Server Error'', st1)
                                     | Some (points, st2) \<Rightarrow>
                                         (SubmitReply points numberOfQuestions, st2)))))))"

section \<open>Reading one result\<close>



definition api_post_quiz_responses ::
  "(json \<Rightarrow> bool) \<Rightarrow> (string \<Rightarrow> verified) \<Rightarrow> string option \<Rightarrow> int \<Rightarrow> clock \<Rightarrow> objid \<Rightarrow> objid
     \<Rightarrow> submit_body \<Rightarrow> store \<Rightarrow> reply \<times> store" where
  "api_post_quiz_responses castable verify authorization tz clk classId quizId body st =
     (case authenticateToken verify st authorization of
        Inl r \<Rightarrow> (r, st)
      | Inr d \<Rightarrow> post_quiz_responses castable tz clk d classId quizId body st)"

definition api_get_quiz ::
  "(string \<Rightarrow> verified) \<Rightarrow> string option \<Rightarrow> int \<Rightarrow> clock \<Rightarrow> objid \<Rightarrow> objid \<Rightarrow> store \<Rightarrow> reply" where
  "api_get_quiz verify authorization tz clk classId quizId st =
     (case authenticateToken verify st authorization of
        Inl r \<Rightarrow> r
      | Inr d \<Rightarrow> get_quiz tz clk d classId quizId st)"

section \<open>Requests that overlap\<close>

text \<open>
  A handler is an \<open>async\<close> function: it runs without interruption between two \<open>await\<close>s
  and may be overtaken by other requests at each of them. The submit handler awaits four
  store operations: \<open>Quiz.findById\<close>, \<open>StudentResponse.findOne\<close>, the save of the
  StudentResponse and, inside \<open>calculateResults\<close>, the save of the StudentResult. A
  \<open>phase\<close> names the operation a request waits for, with the local variables that the
  rest of the handler needs; \<open>step\<close> performs that operation on the store and runs the
  handler up to the next one.
\<close>

record request =
  req_clock :: clock
  req_user :: decoded
  req_classId :: objid
  req_quizId :: objid
  req_body :: submit_body

datatype phase =
    AtFindQuiz
  | AtFindResponse quiz_doc
  | AtSaveResponse quiz_doc "response list"
  | AtSaveResult studentResult
  | Replied reply

fun step ::
  "(json \<Rightarrow> bool) \<Rightarrow> int \<Rightarrow> request \<Rightarrow> phase \<Rightarrow> store \<Rightarrow> phase \<times> store" where
  "step castable tz rq AtFindQuiz st =
     (if role (req_user rq) \<noteq> ''student''
      then (Replied (ErrorReply 403
              ''Forbidden - Only authenticated students can access this endpoint''), st)
      else case Quiz_findById st (req_quizId rq) of
        None \<Rightarrow> (Replied (ErrorReply 500 ''Internal Server Error''), st)
      | Some quiz \<Rightarrow>
          (case submit_window tz (req_clock rq) quiz of
             ENDED \<Rightarrow> (Replied (ErrorReply 403 ''Forbidden - Quiz has already passed''), st)
           | NOT_STARTED \<Rightarrow> (Replied (ErrorReply 403 ''Forbidden - Quiz has not started''), st)
           | ACTIVE \<Rightarrow> (AtFindResponse quiz, st)))"
| "step castable tz rq (AtFindResponse quiz) st =
     (case StudentResponse_findOne st (student_id (req_body rq)) (req_quizId rq) of
        Some isStudentTakeExam \<Rightarrow>
          (Replied (ErrorReply 403 ''Forbidden - Student has already taken the Quiz !''), st)
      | None \<Rightarrow>
          (case collectResponses (body_responses (req_body rq)) [] of
             None \<Rightarrow> (Replied (ErrorReply 400 ''Invalid format for response''), st)
           | Some allResponses \<Rightarrow> (AtSaveResponse quiz allResponses, st)))"
| "step castable tz rq (AtSaveResponse quiz allResponses) st =
     (let studentResponseinfo =
            \<lparr>resp_student_id = student_id (req_body rq), resp_quiz_id = req_quizId rq,
             responses = allResponses\<rparr>
      in case StudentResponse_save castable studentResponseinfo st of
           None \<Rightarrow> (Replied (ErrorReply 500 ''Internal Server Error''), st)
         | Some st1 \<Rightarrow>
             (let points = fold (forEach_body (correctResponses_of quiz))
                             (body_responses (req_body rq)) 0;
                  studentResult =
                    \<lparr>res_student_id = student_id (req_body rq), res_quiz_id = req_quizId rq,
                     score = points, submitted_at = t_save (req_clock rq),
                     out_of = length (questions quiz)\<rparr>
              in (AtSaveResult studentResult, st1)))"
| "step castable tz rq (AtSaveResult studentResult) st =
     (case StudentResult_save castable studentResult st of
        None \<Rightarrow> (Replied (ErrorReply 500 ''Internal Server Error''), st)
      | Some st' \<Rightarrow>
          (Replied (SubmitReply (score studentResult) (out_of studentResult)), st'))"
| "step castable tz rq (Replied r) st = (Replied r, st)"

text \<open>The handler applied to a request that no other request overtakes.\<close>

definition handle :: "(json \<Rightarrow> bool) \<Rightarrow> int \<Rightarrow> request \<Rightarrow> store \<Rightarrow> reply \<times> store" where
  "handle castable tz rq st =
     post_quiz_responses castable tz (req_clock rq) (req_user rq) (req_classId rq) (req_quizId rq)
       (req_body rq) st"

text \<open>
  Several requests in flight. A schedule lists, step by step, the index of the request
  whose awaited operation the store performs next.
\<close>

fun interleave ::
  "(json \<Rightarrow> bool) \<Rightarrow> int \<Rightarrow> nat list \<Rightarrow> (request \<times> phase) list \<Rightarrow> store
     \<Rightarrow> (request \<times> phase) list \<times> store" where
  "interleave castable tz [] ps st = (ps, st)"
| "interleave castable tz (i # sched) ps st =
     (if i < length ps
      then (case step castable tz (fst (ps ! i)) (snd (ps ! i)) st of
              (ph, st') \<Rightarrow> interleave castable tz sched (ps[i := (fst (ps ! i), ph)]) st')
      else interleave castable tz sched ps st)"

text \<open>Requests as they arrive, none of them served yet.\<close>

definition arrivals :: "request list \<Rightarrow> (request \<times> phase) list" where
  "arrivals rqs = map (\<lambda>rq. (rq, AtFindQuiz)) rqs"

text \<open>
  The schedule that serves \<open>n\<close> requests in turn: all four operations of the first,
  then all four of the second, and so on.
\<close>

definition in_turn :: "nat \<Rightarrow> nat list" where
  "in_turn n = concat (map (\<lambda>i. [i, i, i, i]) [0..<n])"

text \<open>Requests handled in turn: each one replies before the next one starts.\<close>

fun submit_in_turn :: "(json \<Rightarrow> bool) \<Rightarrow> int \<Rightarrow> request list \<Rightarrow> store \<Rightarrow> store" where
  "submit_in_turn castable tz [] st = st"
| "submit_in_turn castable tz (rq # rqs) st =
     submit_in_turn castable tz rqs (snd (handle castable tz rq st))"

text \<open>The number of StudentResponse and of StudentResult documents of a student for a quiz.\<close>

definition responses_of :: "objid \<Rightarrow> objid \<Rightarrow> store \<Rightarrow> nat" where
  "responses_of sid qid st =
     length (filter (\<lambda>r. resp_student_id r = sid \<and> resp_quiz_id r = qid) (studentResponses st))"

definition results_of :: "objid \<Rightarrow> objid \<Rightarrow> store \<Rightarrow> nat" where
  "results_of sid qid st =
     length (filter (\<lambda>r. res_student_id r = sid \<and> res_quiz_id r = qid) (studentResults st))"

text \<open>
  One attempt at most: no two responses and no two results share their student and quiz,
  and every result belongs to a response.
\<close>

definition response_keys :: "store \<Rightarrow> (objid \<times> objid) list" where
  "response_keys st = map (\<lambda>r. (resp_student_id r, resp_quiz_id r)) (studentResponses st)"

definition result_keys :: "store \<Rightarrow> (objid \<times> objid) list" where
  "result_keys st = map (\<lambda>r. (res_student_id r, res_quiz_id r)) (studentResults st)"

definition one_attempt :: "store \<Rightarrow> bool" where
  "one_attempt st \<longleftrightarrow>
     distinct (response_keys st) \<and> distinct (result_keys st)
     \<and> set (result_keys st) \<subseteq> set (response_keys st)"

text \<open>
  The specification's notion of a correct response: its \<open>question_id\<close> matches a question
  of the quiz (the first one, should an identifier occur twice) and its \<open>selected_options\<close>
  is the array of that question's correct option identifiers, in their stored order.
\<close>

definition correct_options :: "question_doc \<Rightarrow> objid list" where
  "correct_options question = map option_id (filter is_correct (options question))"

definition spec_correct :: "quiz_doc \<Rightarrow> response \<Rightarrow> bool" where
  "spec_correct quiz r =
     (case find (\<lambda>q. JStr (question_oid q) = question_id r) (questions quiz) of
        None \<Rightarrow> False
      | Some q \<Rightarrow> selected_options r = JArr (map JStr (correct_options q)))"

text \<open>A response matches a question of the quiz when its \<open>question_id\<close> is that question's id.\<close>

definition matched :: "quiz_doc \<Rightarrow> response \<Rightarrow> bool" where
  "matched quiz r \<longleftrightarrow> list_ex (\<lambda>q. JStr (question_oid q) = question_id r) (questions quiz)"

text \<open>The StudentResponse document that the handler builds from a request.\<close>

definition response_doc :: "objid \<Rightarrow> submit_body \<Rightarrow> studentResponse" where
  "response_doc quizId body =
     \<lparr>resp_student_id = student_id body, resp_quiz_id = quizId,
      responses = body_responses body\<rparr>"

text \<open>The test of the handler's loop on one element of \<open>responses\<close>.\<close>

definition malformed :: "response \<Rightarrow> bool" where
  "malformed r \<longleftrightarrow>
     \<not> truthy (question_id r) \<or> \<not> truthy (selected_options r) \<or> \<not> isArray (selected_options r)"

text \<open>
  Two quizzes that differ at most in the \<open>is_correct\<close> flags of their options have the
  same image under \<open>without_flags\<close>.
\<close>

definition without_flags :: "quiz_doc \<Rightarrow> quiz_doc" where
  "without_flags quiz =
     quiz\<lparr>questions :=
            map (\<lambda>q. q\<lparr>options := map (\<lambda>opt. opt\<lparr>is_correct := False\<rparr>) (options q)\<rparr>)
              (questions quiz)\<rparr>"

definition store_without_flags :: "store \<Rightarrow> store" where
  "store_without_flags st = st\<lparr>quiz_coll := map without_flags (quiz_coll st)\<rparr>"

section \<open>A class with one quiz\<close>

text \<open>
  A small store for evaluating the handlers: one teacher, two students, one class and the
  quiz \<open>quiz1\<close>, which starts at 2024-01-20T12:00:00Z and lasts 60 minutes. Its third
  question has two correct options.
\<close>

text \<open>
  Identifiers are written as the store prints ObjectIds, 24 hexadecimal digits. \<open>class7\<close>,
  \<open>quiz9\<close> and \<open>q7\<close> name no document.
\<close>

abbreviation (input) t1_id :: objid where
  "t1_id \<equiv> ''64b000000000000000000001''"

abbreviation (input) s1_id :: objid where
  "s1_id \<equiv> ''64b000000000000000000011''"

abbreviation (input) s2_id :: objid where
  "s2_id \<equiv> ''64b000000000000000000012''"

abbreviation (input) class1_id :: objid where
  "class1_id \<equiv> ''64b0000000000000000000c1''"


abbreviation (input) quiz1_id :: objid where
  "quiz1_id \<equiv> ''64b0000000000000000000d1''"

abbreviation (input) quiz9_id :: objid where
  "quiz9_id \<equiv> ''64b0000000000000000000d9''"

abbreviation (input) q1_id :: objid where
  "q1_id \<equiv> ''64b0000000000000000000e1''"

abbreviation (input) q2_id :: objid where
  "q2_id \<equiv> ''64b0000000000000000000e2''"

abbreviation (input) q3_id :: objid where
  "q3_id \<equiv> ''64b0000000000000000000e3''"

abbreviation (input) q7_id :: objid where
  "q7_id \<equiv> ''64b0000000000000000000e7''"

abbreviation (input) o1_id :: objid where
  "o1_id \<equiv> ''64b0000000000000000000f1''"

abbreviation (input) o2_id :: objid where
  "o2_id \<equiv> ''64b0000000000000000000f2''"

abbreviation (input) o3_id :: objid where
  "o3_id \<equiv> ''64b0000000000000000000f3''"

abbreviation (input) o4_id :: objid where
  "o4_id \<equiv> ''64b0000000000000000000f4''"

abbreviation (input) o5_id :: objid where
  "o5_id \<equiv> ''64b0000000000000000000f5''"

abbreviation (input) o6_id :: objid where
  "o6_id \<equiv> ''64b0000000000000000000f6''"

abbreviation (input) o7_id :: objid where
  "o7_id \<equiv> ''64b0000000000000000000f7''"

text \<open>
  The cast used for the examples accepts the strings of 24 hexadecimal digits, which every
  version of the driver casts to an ObjectId. The values it refuses in the examples (a
  string of ten characters) no version casts.
\<close>

definition hex_digit :: "char \<Rightarrow> bool" where
  "hex_digit c \<longleftrightarrow> c \<in> set ''0123456789abcdefABCDEF''"

definition isHex24 :: "json \<Rightarrow> bool" where
  "isHex24 v = (case v of JStr s \<Rightarrow> length s = 24 \<and> list_all hex_digit s | _ \<Rightarrow> False)"

definition q1 :: question_doc where
  "q1 = \<lparr>question_oid = q1_id, question_text = ''2 + 2'',
          options = [\<lparr>option_id = o1_id, option_text = ''4'', is_correct = True\<rparr>,
                     \<lparr>option_id = o2_id, option_text = ''5'', is_correct = False\<rparr>],
          is_multiple_choice = False\<rparr>"

definition q2 :: question_doc where
  "q2 = \<lparr>question_oid = q2_id, question_text = ''3 * 3'',
          options = [\<lparr>option_id = o3_id, option_text = ''9'', is_correct = True\<rparr>,
                     \<lparr>option_id = o4_id, option_text = ''6'', is_correct = False\<rparr>],
          is_multiple_choice = False\<rparr>"

definition q3 :: question_doc where
  "q3 = \<lparr>question_oid = q3_id, question_text = ''primes'',
          options = [\<lparr>option_id = o5_id, option_text = ''2'', is_correct = True\<rparr>,
                     \<lparr>option_id = o6_id, option_text = ''3'', is_correct = True\<rparr>,
                     \<lparr>option_id = o7_id, option_text = ''4'', is_correct = False\<rparr>],
          is_multiple_choice = True\<rparr>"

definition quiz1 :: quiz_doc where
  "quiz1 = \<lparr>quiz_oid = quiz1_id, quiz_name = ''Math Quiz'', class_id = class1_id,
             start_date = 1705752000000, duration = 60, questions = [q1, q2, q3]\<rparr>"

definition store0 :: store where
  "store0 = \<lparr>teachers = [\<lparr>user_oid = t1_id, username = ''teach'', full_name = ''T One'',
                            email = ''t1@example.org''\<rparr>],
              student_users = [\<lparr>user_oid = s1_id, username = ''stud1'', full_name = ''S One'',
                                 email = ''s1@example.org''\<rparr>,
                               \<lparr>user_oid = s2_id, username = ''stud2'', full_name = ''S Two'',
                                 email = ''s2@example.org''\<rparr>],
              classes = [\<lparr>class_oid = class1_id, class_name = ''Maths'', teacher_id = t1_id,
                           students = [s1_id, s2_id], quizzes = [quiz1_id]\<rparr>],
              quiz_coll = [quiz1],
              studentResponses = [],
              studentResults = []\<rparr>"

definition student1 :: decoded where
  "student1 = \<lparr>user_id = s1_id, token_username = ''stud1'', role = ''student''\<rparr>"

definition student2 :: decoded where
  "student2 = \<lparr>user_id = s2_id, token_username = ''stud2'', role = ''student''\<rparr>"

definition teacher1 :: decoded where
  "teacher1 = \<lparr>user_id = t1_id, token_username = ''teach'', role = ''teacher''\<rparr>"

text \<open>All readings of a request's clock at one instant.\<close>

definition at_time :: "int \<Rightarrow> clock" where
  "at_time t = \<lparr>t_end = t, t_cur = t, t_save = t\<rparr>"

text \<open>2024-01-20T12:30:00Z, half an hour into the quiz, and the same time one day later.\<close>

definition during :: int where
  "during = 1705753800000"

definition next_day :: int where
  "next_day = 1705840200000"

text \<open>
  The submission of scenario B with one more response, for a question that is not in the
  quiz: the first question answered wrongly, the third correctly, the second not at all.
\<close>

definition body_b :: submit_body where
  "body_b = \<lparr>student_id = s1_id,
             body_responses =
               [\<lparr>question_id = JStr q1_id, selected_options = JArr [JStr o2_id]\<rparr>,
                \<lparr>question_id = JStr q3_id, selected_options = JArr [JStr o5_id, JStr o6_id]\<rparr>,
                \<lparr>question_id = JStr q7_id, selected_options = JArr []\<rparr>]\<rparr>"

text \<open>
  One response that passes the handler's loop and names a question by a string that is no
  ObjectId and no question of the quiz.
\<close>

definition body_x :: submit_body where
  "body_x = \<lparr>student_id = s1_id,
             body_responses =
               [\<lparr>question_id = JStr ''question-1'', selected_options = JArr []\<rparr>]\<rparr>"


text \<open>The submission of scenario A, and the same responses sent under the other student's id.\<close>

definition body_a :: submit_body where
  "body_a = \<lparr>student_id = s1_id,
             body_responses =
               [\<lparr>question_id = JStr q1_id, selected_options = JArr [JStr o1_id]\<rparr>,
                \<lparr>question_id = JStr q2_id, selected_options = JArr [JStr o3_id]\<rparr>]\<rparr>"

definition body_for_s2 :: submit_body where
  "body_for_s2 = body_a\<lparr>student_id := s2_id\<rparr>"

text \<open>The store after the first student has submitted \<open>body_a\<close> during the quiz.\<close>

definition store1 :: store where
  "store1 = snd (post_quiz_responses isHex24 0 (at_time during) student1 class1_id quiz1_id body_a store0)"

text \<open>A token service that knows three tokens.\<close>

definition demo_verify :: "string \<Rightarrow> verified" where
  "demo_verify token =
     (if token = ''Bearer tok-s1'' then Payload student1
      else if token = ''Bearer tok-s2'' then Payload student2
      else if token = ''Bearer tok-t1'' then Payload teacher1
      else JsonWebTokenError)"

text \<open>The request that carries the first student's submission of \<open>body_a\<close> during the quiz.\<close>

definition request_a :: request where
  "request_a = \<lparr>req_clock = at_time during, req_user = student1, req_classId = class1_id,
                req_quizId = quiz1_id, req_body = body_a\<rparr>"

lemmas fixture_defs =
  q1_def q2_def q3_def quiz1_def store0_def student1_def at_time_def during_def

lemmas store_defs =
  Teacher_findById_def Student_findById_def Class_findById_def Quiz_findById_def
  StudentResponse_findOne_def StudentResult_findOne_def StudentResponse_save_def
  StudentResult_save_def valid_studentResponse_def valid_studentResult_def

lemmas cast_defs =
  isHex24_def hex_digit_def

lemmas date_defs =
  LocalTime_def getMinutes_def TimeClip_def setMinutes_def

section \<open>Facts about dates and array comparison\<close>

lemma div_1000_60: "(l::int) div 1000 div 60 = l div 60000"
  using zdiv_zmult2_eq [of 60 l 1000] by simp

lemma div_60000_60: "(l::int) div 60000 div 60 = l div 3600000"
  using zdiv_zmult2_eq [of 60 l 60000] by simp

lemma div_3600000_24: "(l::int) div 3600000 div 24 = l div 86400000"
  using zdiv_zmult2_eq [of 24 l 3600000] by simp

lemma time_fields:
  "(l::int) = (l div 86400000) * 86400000 + (((l div 3600000) mod 24) * 3600000
            + ((l div 60000) mod 60) * 60000 + ((l div 1000) mod 60) * 1000 + l mod 1000)"
proof -
  define s where "s = l div 1000"
  define mn where "mn = l div 60000"
  define h where "h = l div 3600000"
  define dy where "dy = l div 86400000"
  have a: "l = s * 1000 + l mod 1000" unfolding s_def by simp
  have b: "s = mn * 60 + s mod 60" unfolding s_def mn_def div_1000_60 [symmetric] by simp
  have c: "mn = h * 60 + mn mod 60" unfolding mn_def h_def div_60000_60 [symmetric] by simp
  have d: "h = dy * 24 + h mod 24" unfolding h_def dy_def div_3600000_24 [symmetric] by simp
  have "l = dy * 86400000 + (h mod 24 * 3600000 + mn mod 60 * 60000 + s mod 60 * 1000 + l mod 1000)"
    using a b c d by linarith
  then show ?thesis unfolding s_def mn_def h_def dy_def .
qed

text \<open>\<open>setMinutes\<close> moves a date by the difference between the new and the old minutes.\<close>

lemma setMinutes_eq: "setMinutes tz t m = TimeClip (t + (m - getMinutes tz t) * 60000)"
proof -
  define l where "l = t + tz * 60000"
  define dy where "dy = l div 86400000"
  define hr where "hr = (l div 3600000) mod 24"
  define mi where "mi = (l div 60000) mod 60"
  define sc where "sc = (l div 1000) mod 60"
  define ms where "ms = l mod 1000"
  have "l = dy * 86400000 + (hr * 3600000 + mi * 60000 + sc * 1000 + ms)"
    unfolding dy_def hr_def mi_def sc_def ms_def by (rule time_fields)
  then have "dy * 86400000 + (hr * 3600000 + m * 60000 + sc * 1000 + ms) - tz * 60000
             = t + (m - mi) * 60000"
    unfolding l_def by (simp add: left_diff_distrib)
  then show ?thesis
    unfolding setMinutes_def getMinutes_def LocalTime_def Let_def
      l_def [symmetric] dy_def [symmetric] hr_def [symmetric] mi_def [symmetric]
      sc_def [symmetric] ms_def [symmetric]
    by (rule arg_cong)
qed

text \<open>
  The window test with both clock readings at one instant: unless \<open>endDate\<close> is invalid,
  the quiz has ended exactly when it has started and the minute of the hour now is beyond
  the start's minute of the hour plus the duration.
\<close>

lemma submit_window_ENDED_iff:
  assumes "\<bar>now + (getMinutes tz (start_date quiz) + duration quiz - getMinutes tz now) * 60000\<bar>
           \<le> 8640000000000000"
  shows "submit_window tz (at_time now) quiz = ENDED
         \<longleftrightarrow> start_date quiz < now
             \<and> getMinutes tz (start_date quiz) + duration quiz < getMinutes tz now"
proof -
  let ?k = "getMinutes tz (start_date quiz) + duration quiz - getMinutes tz now"
  have "setMinutes tz now (getMinutes tz (start_date quiz) + duration quiz)
        = Some (now + ?k * 60000)"
    using assms by (simp only: setMinutes_eq TimeClip_def if_True)
  then have "submit_window tz (at_time now) quiz = ENDED
             \<longleftrightarrow> start_date quiz < now \<and> now + ?k * 60000 < now"
    by (auto simp add: submit_window_def at_time_def)
  also have "now + ?k * 60000 < now \<longleftrightarrow> ?k < 0"
  proof -
    have "now + k * 60000 < now \<longleftrightarrow> k < 0" for k :: int
      by simp
    then show ?thesis .
  qed
  also have "?k < 0
             \<longleftrightarrow> getMinutes tz (start_date quiz) + duration quiz < getMinutes tz now"
    by linarith
  finally show ?thesis .
qed

lemma arraysEqual_from_iff:
  "arraysEqual_from i arr1 arr2 \<longleftrightarrow>
     (\<forall>j. i \<le> j \<and> j < length arr1 \<longrightarrow> arr2 ! j = JStr (arr1 ! j))"
proof (induction i arr1 arr2 rule: arraysEqual_from.induct)
  case (1 i arr1 arr2)
  show ?case
  proof (cases "i < length arr1")
    case False
    then show ?thesis by (auto simp add: arraysEqual_from.simps [of i])
  next
    case True
    show ?thesis
    proof (cases "JStr (arr1 ! i) = arr2 ! i")
      case False
      with True show ?thesis
        by (auto simp add: arraysEqual_from.simps [of i])
    next
      case eq: True
      have "(\<forall>j. i \<le> j \<and> j < length arr1 \<longrightarrow> arr2 ! j = JStr (arr1 ! j))
            \<longleftrightarrow> (\<forall>j. i + 1 \<le> j \<and> j < length arr1 \<longrightarrow> arr2 ! j = JStr (arr1 ! j))"
      proof (intro iffI allI impI)
        fix j assume "\<forall>j. i \<le> j \<and> j < length arr1 \<longrightarrow> arr2 ! j = JStr (arr1 ! j)"
          and "i + 1 \<le> j \<and> j < length arr1"
        then show "arr2 ! j = JStr (arr1 ! j)" by simp
      next
        fix j assume a: "\<forall>j. i + 1 \<le> j \<and> j < length arr1 \<longrightarrow> arr2 ! j = JStr (arr1 ! j)"
          and b: "i \<le> j \<and> j < length arr1"
        show "arr2 ! j = JStr (arr1 ! j)"
        proof (cases "j = i")
          case True
          with eq show ?thesis by simp
        next
          case False
          with b have "i + 1 \<le> j" by simp
          with a b show ?thesis by blast
        qed
      qed
      with 1 True eq show ?thesis
        by (simp add: arraysEqual_from.simps [of i])
    qed
  qed
qed

text \<open>\<open>arraysEqual\<close> holds exactly of a submitted array that is the stored one, element by element.\<close>

lemma arraysEqual_iff: "arraysEqual arr1 arr2 \<longleftrightarrow> arr2 = map JStr arr1"
  by (auto simp add: arraysEqual_def arraysEqual_from_iff list_eq_iff_nth_eq)

section \<open>The scheduling window\<close>

text \<open>
  C1. The specification puts the end of the window at \<open>start_date\<close> plus \<open>duration\<close>
  minutes. The handler builds \<open>endDate\<close> from the current time instead, replacing only
  its minutes: one day after the quiz of \<open>store0\<close> began, at 12:30, \<open>endDate\<close> is 13:00 of
  that day, the window test answers \<open>ACTIVE\<close> where the specification answers \<open>ENDED\<close>,
  and the submission is scored.
\<close>

theorem C1_window_active_one_day_late:
  "submit_window 0 (at_time next_day) quiz1 = ACTIVE
   \<and> spec_windowState next_day (start_date quiz1) (duration quiz1) = ENDED
   \<and> fst (post_quiz_responses isHex24 0 (at_time next_day) student1 class1_id quiz1_id body_a store0)
     = SubmitReply 2 3"
  by (simp add: submit_window_def spec_windowState_def post_quiz_responses_def
      calculateResults_def correctResponses_of_def forEach_body_def arraysEqual_def
      arraysEqual_from.simps next_day_def body_a_def fixture_defs store_defs date_defs
      cast_defs)

text \<open>
  C7. The window test at the view-quiz call site and the one at the submit-responses call
  site classify every quiz and every pair of clock readings alike; for a student of the
  class, the two handlers therefore answer "already passed" in the same cases and "not
  started" in the same cases.
\<close>

theorem C7_view_and_submit_same_window:
  assumes "role d = ''student''"
    and "Class_findById st classId = Some myClass"
    and "teacher_id myClass = user_id d \<or> user_id d \<in> set (students myClass)"
    and "Quiz_findById st quizId = Some quiz"
  shows "view_window tz clk quiz = submit_window tz clk quiz
    \<and> (get_quiz tz clk d classId quizId st = ErrorReply 403 ''Forbidden - Quiz has already passed''
        \<longleftrightarrow> fst (post_quiz_responses castable tz clk d classId quizId body st)
              = ErrorReply 403 ''Forbidden - Quiz has already passed'')
    \<and> (get_quiz tz clk d classId quizId st = ErrorReply 403 ''Forbidden - Quiz has not started''
        \<longleftrightarrow> fst (post_quiz_responses castable tz clk d classId quizId body st)
              = ErrorReply 403 ''Forbidden - Quiz has not started'')"
proof -
  have same: "view_window tz clk quiz = submit_window tz clk quiz"
    by (simp add: view_window_def submit_window_def)
  show ?thesis
  proof (cases "submit_window tz clk quiz")
    case NOT_STARTED
    with assms same show ?thesis
      by (simp add: get_quiz_def post_quiz_responses_def)
  next
    case ENDED
    with assms same show ?thesis
      by (simp add: get_quiz_def post_quiz_responses_def)
  next
    case ACTIVE
    with assms same show ?thesis
      by (simp add: get_quiz_def post_quiz_responses_def Let_def
          split: option.split prod.split)
  qed
qed

theorem C7_view_and_submit_same_window_witness:
  "view_window 0 (at_time next_day) quiz1 = submit_window 0 (at_time next_day) quiz1
   \<and> get_quiz 0 (at_time 0) student1 class1_id quiz1_id store0
       = ErrorReply 403 ''Forbidden - Quiz has not started''
   \<and> fst (post_quiz_responses isHex24 0 (at_time 0) student1 class1_id quiz1_id
            \<lparr>student_id = s1_id, body_responses = []\<rparr> store0)
       = ErrorReply 403 ''Forbidden - Quiz has not started''"
proof -
  have r: "role student1 = ''student''"
    by (simp add: fixture_defs)
  have c: "Class_findById store0 class1_id = Some (hd (classes store0))"
    by (simp add: fixture_defs store_defs)
  have m: "teacher_id (hd (classes store0)) = user_id student1
           \<or> user_id student1 \<in> set (students (hd (classes store0)))"
    by (simp add: fixture_defs)
  have q: "Quiz_findById store0 quiz1_id = Some quiz1"
    by (simp add: fixture_defs store_defs)
  have g: "get_quiz 0 (at_time 0) student1 class1_id quiz1_id store0
       = ErrorReply 403 ''Forbidden - Quiz has not started''"
    by (simp add: get_quiz_def view_window_def fixture_defs store_defs date_defs)
  from C7_view_and_submit_same_window [OF r c m q, where tz = 0 and clk = "at_time next_day"]
  have w: "view_window 0 (at_time next_day) quiz1 = submit_window 0 (at_time next_day) quiz1"
    by simp
  from C7_view_and_submit_same_window [OF r c m q, where tz = 0 and clk = "at_time 0"
      and body = "\<lparr>student_id = s1_id, body_responses = []\<rparr>" and castable = isHex24] g w
  show ?thesis by simp
qed

section \<open>Properties of scoring and submission\<close>

lemma find_map_list: "find P (map f xs) = map_option f (find (\<lambda>x. P (f x)) xs)"
  by (induction xs) simp_all

lemma response_eta:
  "\<lparr>question_id = question_id r, selected_options = selected_options r\<rparr> = (r :: response)"
  by (cases r) simp

lemma find_correctResponses_of:
  "find (\<lambda>r. JStr (cr_question_id r) = v) (correctResponses_of quiz)
   = map_option (\<lambda>q. \<lparr>cr_question_id = question_oid q, cr_selected_options = correct_options q\<rparr>)
       (find (\<lambda>q. JStr (question_oid q) = v) (questions quiz))"
  unfolding correctResponses_of_def correct_options_def
  by (simp add: find_map_list)

lemma isArray_elements: "isArray v \<Longrightarrow> JArr (elements v) = v"
  by (cases v) simp_all

lemma forEach_body_spec:
  assumes "isArray (selected_options r)"
  shows "forEach_body (correctResponses_of quiz) r n = (if spec_correct quiz r then n + 1 else n)"
proof (cases "find (\<lambda>q. JStr (question_oid q) = question_id r) (questions quiz)")
  case None
  then show ?thesis
    by (simp add: forEach_body_def spec_correct_def find_correctResponses_of)
next
  case (Some q)
  have "elements (selected_options r) = map JStr (correct_options q)
        \<longleftrightarrow> selected_options r = JArr (map JStr (correct_options q))"
    using isArray_elements [OF assms] by (cases "selected_options r") auto
  with Some show ?thesis
    by (simp add: forEach_body_def spec_correct_def find_correctResponses_of arraysEqual_iff)
qed

lemma fold_forEach_body:
  assumes "\<forall>r \<in> set rs. isArray (selected_options r)"
  shows "fold (forEach_body (correctResponses_of quiz)) rs n
         = n + length (filter (spec_correct quiz) rs)"
  using assms by (induction rs arbitrary: n) (simp_all add: forEach_body_spec)

lemma collectResponses_Some:
  "collectResponses rs acc = Some allResponses
   \<Longrightarrow> allResponses = acc @ rs \<and> (\<forall>r \<in> set rs. \<not> malformed r)"
proof (induction rs arbitrary: acc)
  case Nil
  then show ?case by simp
next
  case (Cons r rs)
  from Cons.prems have ok: "\<not> malformed r"
    by (auto simp add: malformed_def split: if_splits)
  with Cons.prems have "collectResponses rs (acc @ [r]) = Some allResponses"
    by (simp add: malformed_def response_eta)
  from Cons.IH [OF this] ok show ?case by simp
qed

lemma collectResponses_None:
  "collectResponses rs acc = None \<longleftrightarrow> (\<exists>r \<in> set rs. malformed r)"
  by (induction rs arbitrary: acc) (auto simp add: malformed_def)

text \<open>
  C3. Let a submitted response name a question of the quiz and carry an array of selected
  options. It raises the score exactly when that array is the question's correct option
  identifiers in their stored order, element by element. So the two correct options of
  the third question of \<open>quiz1\<close>, submitted in the other order, score nothing.
\<close>

theorem C3_correct_iff_same_sequence:
  assumes "find (\<lambda>q. JStr (question_oid q) = question_id r) (questions quiz) = Some question"
    and "selected_options r = JArr selected"
  shows "(forEach_body (correctResponses_of quiz) r n = n + 1
          \<longleftrightarrow> selected = map JStr (correct_options question))
    \<and> (length selected = length (correct_options question)
        \<and> (\<forall>i < length selected. selected ! i = JStr (correct_options question ! i))
        \<longleftrightarrow> forEach_body (correctResponses_of quiz) r n = n + 1)
    \<and> set [JStr o6_id, JStr o5_id] = JStr ` set (correct_options q3)
    \<and> forEach_body (correctResponses_of quiz1)
         \<lparr>question_id = JStr q3_id, selected_options = JArr [JStr o6_id, JStr o5_id]\<rparr> 0 = 0"
proof -
  have arr: "isArray (selected_options r)"
    using assms(2) by simp
  have a: "forEach_body (correctResponses_of quiz) r n = n + 1
           \<longleftrightarrow> selected = map JStr (correct_options question)"
    using assms by (simp add: forEach_body_spec [OF arr] spec_correct_def)
  have b: "selected = map JStr (correct_options question)
           \<longleftrightarrow> length selected = length (correct_options question)
               \<and> (\<forall>i < length selected. selected ! i = JStr (correct_options question ! i))"
    by (auto simp add: list_eq_iff_nth_eq)
  have c: "set [JStr o6_id, JStr o5_id] = JStr ` set (correct_options q3)"
    by (auto simp add: correct_options_def q3_def)
  have d: "forEach_body (correctResponses_of quiz1)
         \<lparr>question_id = JStr q3_id, selected_options = JArr [JStr o6_id, JStr o5_id]\<rparr> 0 = 0"
    by (simp add: forEach_body_spec spec_correct_def correct_options_def fixture_defs)
  from a b c d show ?thesis by blast
qed

theorem C3_correct_iff_same_sequence_witness:
  "forEach_body (correctResponses_of quiz1)
     \<lparr>question_id = JStr q3_id, selected_options = JArr [JStr o5_id, JStr o6_id]\<rparr> 0 = 0 + 1
   \<and> forEach_body (correctResponses_of quiz1)
     \<lparr>question_id = JStr q3_id, selected_options = JArr [JStr o6_id, JStr o5_id]\<rparr> 0 = 0"
proof -
  let ?r = "\<lparr>question_id = JStr q3_id, selected_options = JArr [JStr o5_id, JStr o6_id]\<rparr>"
  have f: "find (\<lambda>q. JStr (question_oid q) = question_id ?r) (questions quiz1) = Some q3"
    by (simp add: fixture_defs)
  have s: "selected_options ?r = JArr [JStr o5_id, JStr o6_id]"
    by simp
  have e: "[JStr o5_id, JStr o6_id] = map JStr (correct_options q3)"
    by (simp add: correct_options_def q3_def)
  from C3_correct_iff_same_sequence [OF f s, of 0] e show ?thesis
    by blast
qed

text \<open>
  C4. A submission for a quiz that does not exist is answered with status 500, not with
  "Quiz not found": the handler reads \<open>quiz.start_date\<close> before it tests \<open>!quiz\<close>. The
  view-quiz handler, which tests first, answers 404 for the same quiz.
\<close>

theorem C4_missing_quiz_answers_500:
  "Quiz_findById store0 quiz9_id = None
   \<and> post_quiz_responses isHex24 0 (at_time during) student1 class1_id quiz9_id
       \<lparr>student_id = s1_id, body_responses = []\<rparr> store0
     = (ErrorReply 500 ''Internal Server Error'', store0)
   \<and> get_quiz 0 (at_time during) student1 class1_id quiz9_id store0
     = ErrorReply 404 ''Quiz not found''"
  by (simp add: post_quiz_responses_def get_quiz_def fixture_defs store_defs)

text \<open>
  What the handler does with a submission that passed its four tests and whose elements are
  all well formed. If the store finds the StudentResponse valid, one StudentResponse and
  one StudentResult are appended and the score is the number of correct responses; if not,
  the reply is status 500 and the store is as before.
\<close>

lemma post_quiz_responses_admitted:
  assumes "role d = ''student''"
    and "Quiz_findById st quizId = Some quiz"
    and "submit_window tz clk quiz = ACTIVE"
    and "StudentResponse_findOne st (student_id body) quizId = None"
    and "\<forall>r \<in> set (body_responses body). \<not> malformed r"
    and "valid_studentResponse castable (response_doc quizId body)"
  shows "post_quiz_responses castable tz clk d classId quizId body st =
    (SubmitReply (length (filter (spec_correct quiz) (body_responses body)))
       (length (questions quiz)),
     st\<lparr>studentResponses := studentResponses st @
           [\<lparr>resp_student_id = student_id body, resp_quiz_id = quizId,
             responses = body_responses body\<rparr>],
        studentResults := studentResults st @
           [\<lparr>res_student_id = student_id body, res_quiz_id = quizId,
             score = length (filter (spec_correct quiz) (body_responses body)),
             submitted_at = t_save clk, out_of = length (questions quiz)\<rparr>]\<rparr>)"
proof -
  from assms(5) have "collectResponses (body_responses body) [] \<noteq> None"
    by (simp add: collectResponses_None)
  then obtain allResponses
    where c: "collectResponses (body_responses body) [] = Some allResponses"
    by blast
  from collectResponses_Some [OF c] have all: "allResponses = body_responses body"
    by simp
  from assms(5) have "\<forall>r \<in> set (body_responses body). isArray (selected_options r)"
    by (simp add: malformed_def)
  then have f: "fold (forEach_body (correctResponses_of quiz)) (body_responses body) 0
                = length (filter (spec_correct quiz) (body_responses body))"
    by (simp add: fold_forEach_body)
  from assms(6)
  have v: "valid_studentResponse castable
             \<lparr>resp_student_id = student_id body, resp_quiz_id = quizId,
              responses = body_responses body\<rparr>"
    and ids: "castable (JStr (student_id body))" "castable (JStr quizId)"
    by (simp_all add: response_doc_def valid_studentResponse_def)
  show ?thesis
    using assms(1-4) c v ids
    by (simp add: post_quiz_responses_def calculateResults_def Let_def f all
        StudentResponse_save_def StudentResult_save_def valid_studentResult_def)
qed

lemma post_quiz_responses_invalid:
  assumes "role d = ''student''"
    and "Quiz_findById st quizId = Some quiz"
    and "submit_window tz clk quiz = ACTIVE"
    and "StudentResponse_findOne st (student_id body) quizId = None"
    and "\<forall>r \<in> set (body_responses body). \<not> malformed r"
    and "\<not> valid_studentResponse castable (response_doc quizId body)"
  shows "post_quiz_responses castable tz clk d classId quizId body st
         = (ErrorReply 500 ''Internal Server Error'', st)"
proof -
  from assms(5) have "collectResponses (body_responses body) [] \<noteq> None"
    by (simp add: collectResponses_None)
  then obtain allResponses
    where c: "collectResponses (body_responses body) [] = Some allResponses"
    by blast
  from collectResponses_Some [OF c] have all: "allResponses = body_responses body"
    by simp
  from assms(6)
  have v: "\<not> valid_studentResponse castable
             \<lparr>resp_student_id = student_id body, resp_quiz_id = quizId,
              responses = body_responses body\<rparr>"
    by (simp add: response_doc_def)
  show ?thesis
    using assms(1-4) c v
    by (simp add: post_quiz_responses_def Let_def all StudentResponse_save_def)
qed

text \<open>
  C2, as stated: for every submitted batch the reply carries the score, and a response
  whose \<open>question_id\<close> matches no question of the quiz is neither counted nor an error. It
  fails: \<open>body_x\<close> passes the role, quiz, window and duplicate tests and the handler's loop;
  its one response names a question by the string \<open>question-1\<close>, which matches no question
  and is no ObjectId. The save of the StudentResponse rejects it: the reply is status 500,
  not a score, and nothing is written.
\<close>

theorem C2_non_objectid_question_counterexample:
  "role student1 = ''student''
   \<and> Quiz_findById store0 quiz1_id = Some quiz1
   \<and> submit_window 0 (at_time during) quiz1 = ACTIVE
   \<and> StudentResponse_findOne store0 (student_id body_x) quiz1_id = None
   \<and> \<not> malformed (hd (body_responses body_x))
   \<and> \<not> matched quiz1 (hd (body_responses body_x))
   \<and> post_quiz_responses isHex24 0 (at_time during) student1 class1_id quiz1_id body_x store0
     = (ErrorReply 500 ''Internal Server Error'', store0)"
  by (simp add: post_quiz_responses_def submit_window_def malformed_def matched_def
      body_x_def fixture_defs store_defs date_defs cast_defs)

text \<open>
  C2, amended: take an admitted submission whose elements are all well formed. If its
  student id, quiz id, question ids and selected option ids all cast to ObjectIds, as the
  schema of StudentResponse requires, the score in the reply is the number of submitted
  responses that match a question of the quiz and are judged correct, and \<open>out_of\<close> is the
  number of questions of the quiz, however many were answered; a response that matches no
  question is not counted, and the score is at most the number of submitted responses that
  match a question. If one of those ids does not cast, the reply is status 500 and nothing
  is written.
\<close>

theorem C2_score_counts_correct_responses:
  assumes "role d = ''student''"
    and "Quiz_findById st quizId = Some quiz"
    and "submit_window tz clk quiz = ACTIVE"
    and "StudentResponse_findOne st (student_id body) quizId = None"
    and "\<forall>r \<in> set (body_responses body). \<not> malformed r"
  shows "(valid_studentResponse castable (response_doc quizId body) \<longrightarrow>
          fst (post_quiz_responses castable tz clk d classId quizId body st)
          = SubmitReply (length (filter (spec_correct quiz) (body_responses body)))
              (length (questions quiz)))
    \<and> (\<not> valid_studentResponse castable (response_doc quizId body) \<longrightarrow>
          post_quiz_responses castable tz clk d classId quizId body st
          = (ErrorReply 500 ''Internal Server Error'', st))
    \<and> (\<forall>r \<in> set (body_responses body). \<not> matched quiz r \<longrightarrow> \<not> spec_correct quiz r)
    \<and> length (filter (spec_correct quiz) (body_responses body))
        \<le> length (filter (matched quiz) (body_responses body))"
proof -
  have unmatched: "\<not> spec_correct quiz r" if "\<not> matched quiz r" for r
  proof -
    from that have "find (\<lambda>q. JStr (question_oid q) = question_id r) (questions quiz) = None"
      by (simp add: matched_def find_None_iff list_ex_iff)
    then show ?thesis by (simp add: spec_correct_def)
  qed
  have "length (filter (spec_correct quiz) (body_responses body))
        = length (filter (spec_correct quiz) (filter (matched quiz) (body_responses body)))"
    using unmatched by (auto intro!: arg_cong [where f = length] filter_cong)
  also have "\<dots> \<le> length (filter (matched quiz) (body_responses body))"
    by (rule length_filter_le)
  finally have le: "length (filter (spec_correct quiz) (body_responses body))
        \<le> length (filter (matched quiz) (body_responses body))" .
  have ok: "fst (post_quiz_responses castable tz clk d classId quizId body st)
          = SubmitReply (length (filter (spec_correct quiz) (body_responses body)))
              (length (questions quiz))"
    if "valid_studentResponse castable (response_doc quizId body)"
    using post_quiz_responses_admitted [OF assms that] by simp
  have bad: "post_quiz_responses castable tz clk d classId quizId body st
          = (ErrorReply 500 ''Internal Server Error'', st)"
    if "\<not> valid_studentResponse castable (response_doc quizId body)"
    using post_quiz_responses_invalid [OF assms that] .
  from ok bad unmatched le show ?thesis
    by blast
qed

theorem C2_score_counts_correct_responses_witness:
  "valid_studentResponse isHex24 (response_doc quiz1_id body_b)
   \<and> \<not> matched quiz1 (last (body_responses body_b))
   \<and> fst (post_quiz_responses isHex24 0 (at_time during) student1 class1_id quiz1_id body_b
            store0)
     = SubmitReply 1 3"
proof -
  have r: "role student1 = ''student''"
    by (simp add: fixture_defs)
  have q: "Quiz_findById store0 quiz1_id = Some quiz1"
    by (simp add: fixture_defs store_defs)
  have w: "submit_window 0 (at_time during) quiz1 = ACTIVE"
    by (simp add: submit_window_def fixture_defs date_defs)
  have n: "StudentResponse_findOne store0 (student_id body_b) quiz1_id = None"
    by (simp add: body_b_def fixture_defs store_defs)
  have m: "\<forall>r \<in> set (body_responses body_b). \<not> malformed r"
    by (simp add: body_b_def malformed_def)
  have v: "valid_studentResponse isHex24 (response_doc quiz1_id body_b)"
    by (simp add: response_doc_def valid_studentResponse_def body_b_def cast_defs)
  have u: "\<not> matched quiz1 (last (body_responses body_b))"
    by (simp add: matched_def body_b_def fixture_defs)
  have c: "length (filter (spec_correct quiz1) (body_responses body_b)) = 1"
    by (simp add: body_b_def spec_correct_def correct_options_def fixture_defs)
  have l: "length (questions quiz1) = 3"
    by (simp add: quiz1_def)
  from C2_score_counts_correct_responses [OF r q w n m, where classId = class1_id
      and castable = isHex24] v u c l
  show ?thesis by simp
qed



section \<open>What the handlers disclose and to whom\<close>

text \<open>
  C6, as stated: the quiz detail sent to a student reveals nothing about which options are
  marked correct. It fails: the first student, viewing \<open>quiz1\<close> during its window, is sent
  the stored document, in which the first option of the first question is marked correct;
  with the flags of the stored quiz cleared the reply is a different one.
\<close>

theorem C6_flags_disclosed_counterexample:
  "get_quiz 0 (at_time during) student1 class1_id quiz1_id store0 = QuizReply quiz1
   \<and> is_correct (hd (options (hd (questions quiz1))))
   \<and> get_quiz 0 (at_time during) student1 class1_id quiz1_id store0
       \<noteq> get_quiz 0 (at_time during) student1 class1_id quiz1_id (store_without_flags store0)"
  by (simp add: get_quiz_def view_window_def store_without_flags_def without_flags_def
      fixture_defs store_defs date_defs)

text \<open>
  C6, amended: a student of the class who asks for a quiz inside its window and has no
  StudentResponse for it is sent the stored quiz document unchanged, every \<open>is_correct\<close>
  flag included.
\<close>

theorem C6_student_is_sent_stored_quiz:
  assumes "role d = ''student''"
    and "Class_findById st classId = Some myClass"
    and "teacher_id myClass = user_id d \<or> user_id d \<in> set (students myClass)"
    and "Quiz_findById st quizId = Some quiz"
    and "view_window tz clk quiz = ACTIVE"
    and "StudentResponse_findOne st (user_id d) quizId = None"
  shows "get_quiz tz clk d classId quizId st = QuizReply quiz"
  using assms by (simp add: get_quiz_def)

theorem C6_student_is_sent_stored_quiz_witness:
  "get_quiz 0 (at_time during) student1 class1_id quiz1_id store0 = QuizReply quiz1
   \<and> map (map is_correct \<circ> options) (questions quiz1)
       = [[True, False], [True, False], [True, True, False]]"
proof -
  have r: "role student1 = ''student''"
    by (simp add: fixture_defs)
  have c: "Class_findById store0 class1_id = Some (hd (classes store0))"
    by (simp add: fixture_defs store_defs)
  have m: "teacher_id (hd (classes store0)) = user_id student1
           \<or> user_id student1 \<in> set (students (hd (classes store0)))"
    by (simp add: fixture_defs)
  have q: "Quiz_findById store0 quiz1_id = Some quiz1"
    by (simp add: fixture_defs store_defs)
  have w: "view_window 0 (at_time during) quiz1 = ACTIVE"
    by (simp add: view_window_def fixture_defs date_defs)
  have n: "StudentResponse_findOne store0 (user_id student1) quiz1_id = None"
    by (simp add: fixture_defs store_defs)
  have f: "map (map is_correct \<circ> options) (questions quiz1)
       = [[True, False], [True, False], [True, True, False]]"
    by (simp add: fixture_defs)
  from C6_student_is_sent_stored_quiz [OF r c m q w n] f show ?thesis
    by simp
qed

text \<open>The store after a submission: as before, or with one response and one result more.\<close>

lemma post_quiz_responses_store:
  "snd (post_quiz_responses castable tz clk d classId quizId body st) = st
   \<or> (StudentResponse_findOne st (student_id body) quizId = None
      \<and> (\<exists>points n.
           snd (post_quiz_responses castable tz clk d classId quizId body st) =
             st\<lparr>studentResponses := studentResponses st @
                   [\<lparr>resp_student_id = student_id body, resp_quiz_id = quizId,
                     responses = body_responses body\<rparr>],
                studentResults := studentResults st @
                   [\<lparr>res_student_id = student_id body, res_quiz_id = quizId,
                     score = points, submitted_at = t_save clk, out_of = n\<rparr>]\<rparr>))"
proof (cases "role d = ''student''")
  case False
  then show ?thesis by (simp add: post_quiz_responses_def)
next
  case student: True
  show ?thesis
  proof (cases "Quiz_findById st quizId")
    case None
    with student show ?thesis by (simp add: post_quiz_responses_def)
  next
    case (Some quiz)
    show ?thesis
    proof (cases "submit_window tz clk quiz = ACTIVE
                  \<and> StudentResponse_findOne st (student_id body) quizId = None
                  \<and> (\<forall>r \<in> set (body_responses body). \<not> malformed r)")
      case admitted: True
      show ?thesis
      proof (cases "valid_studentResponse castable (response_doc quizId body)")
        case True
        with admitted
          post_quiz_responses_admitted [OF student Some, where castable = castable
            and tz = tz and clk = clk and body = body and classId = classId]
        show ?thesis by auto
      next
        case False
        with admitted
          post_quiz_responses_invalid [OF student Some, where castable = castable
            and tz = tz and clk = clk and body = body and classId = classId]
        show ?thesis by auto
      qed
    next
      case False
      then have "snd (post_quiz_responses castable tz clk d classId quizId body st) = st"
        using student Some collectResponses_None [of "body_responses body" "[]"]
        by (auto simp add: post_quiz_responses_def split: windowState.split option.split)
      then show ?thesis by simp
    qed
  qed
qed

text \<open>
  C9. With the role fixed at student, the submit route does the same for every
  authenticated caller: same reply, same store. Its duplicate test looks for a
  StudentResponse under the \<open>student_id\<close> of the body, and whatever it writes carries that
  \<open>student_id\<close>. The view route's test looks under the caller's own id.
\<close>

theorem C9_submission_keyed_on_body_student_id:
  assumes "authenticateToken verify st authorization = Inr d" and "role d = ''student''"
    and "authenticateToken verify st authorization' = Inr d'" and "role d' = ''student''"
  shows "api_post_quiz_responses castable verify authorization tz clk classId quizId body st
         = api_post_quiz_responses castable verify authorization' tz clk classId quizId body st
    \<and> (Quiz_findById st quizId = Some quiz \<longrightarrow> submit_window tz clk quiz = ACTIVE \<longrightarrow>
         (fst (api_post_quiz_responses castable verify authorization tz clk classId quizId body st)
            = ErrorReply 403 ''Forbidden - Student has already taken the Quiz !''
          \<longleftrightarrow> StudentResponse_findOne st (student_id body) quizId \<noteq> None))
    \<and> (snd (api_post_quiz_responses castable verify authorization tz clk classId quizId body st) = st
        \<or> (\<exists>points n.
             snd (api_post_quiz_responses castable verify authorization tz clk classId quizId body st) =
               st\<lparr>studentResponses := studentResponses st @
                     [\<lparr>resp_student_id = student_id body, resp_quiz_id = quizId,
                       responses = body_responses body\<rparr>],
                  studentResults := studentResults st @
                     [\<lparr>res_student_id = student_id body, res_quiz_id = quizId,
                       score = points, submitted_at = t_save clk, out_of = n\<rparr>]\<rparr>))
    \<and> (Class_findById st classId = Some myClass \<longrightarrow>
        teacher_id myClass = user_id d \<or> user_id d \<in> set (students myClass) \<longrightarrow>
        Quiz_findById st quizId = Some quiz \<longrightarrow> view_window tz clk quiz = ACTIVE \<longrightarrow>
         (api_get_quiz verify authorization tz clk classId quizId st
            = ErrorReply 403 ''Forbidden - Student has already taken the Quiz !''
          \<longleftrightarrow> StudentResponse_findOne st (user_id d) quizId \<noteq> None))"
proof -
  have p: "api_post_quiz_responses castable verify authorization tz clk classId quizId body st
           = post_quiz_responses castable tz clk d classId quizId body st"
    using assms(1) by (simp add: api_post_quiz_responses_def)
  have p': "api_post_quiz_responses castable verify authorization' tz clk classId quizId body st
           = post_quiz_responses castable tz clk d' classId quizId body st"
    using assms(3) by (simp add: api_post_quiz_responses_def)
  have g: "api_get_quiz verify authorization tz clk classId quizId st
           = get_quiz tz clk d classId quizId st"
    using assms(1) by (simp add: api_get_quiz_def)
  have a: "post_quiz_responses castable tz clk d classId quizId body st
           = post_quiz_responses castable tz clk d' classId quizId body st"
    using assms(2,4) by (simp add: post_quiz_responses_def)
  have b: "fst (post_quiz_responses castable tz clk d classId quizId body st)
            = ErrorReply 403 ''Forbidden - Student has already taken the Quiz !''
          \<longleftrightarrow> StudentResponse_findOne st (student_id body) quizId \<noteq> None"
    if "Quiz_findById st quizId = Some quiz" and "submit_window tz clk quiz = ACTIVE"
    using that assms(2)
    by (auto simp add: post_quiz_responses_def Let_def split: option.split prod.split)
  have c: "snd (post_quiz_responses castable tz clk d classId quizId body st) = st
        \<or> (\<exists>points n.
             snd (post_quiz_responses castable tz clk d classId quizId body st) =
               st\<lparr>studentResponses := studentResponses st @
                     [\<lparr>resp_student_id = student_id body, resp_quiz_id = quizId,
                       responses = body_responses body\<rparr>],
                  studentResults := studentResults st @
                     [\<lparr>res_student_id = student_id body, res_quiz_id = quizId,
                       score = points, submitted_at = t_save clk, out_of = n\<rparr>]\<rparr>)"
    using post_quiz_responses_store [of castable tz clk d classId quizId body st] by blast
  have e: "get_quiz tz clk d classId quizId st
            = ErrorReply 403 ''Forbidden - Student has already taken the Quiz !''
          \<longleftrightarrow> StudentResponse_findOne st (user_id d) quizId \<noteq> None"
    if "Class_findById st classId = Some myClass"
      and "teacher_id myClass = user_id d \<or> user_id d \<in> set (students myClass)"
      and "Quiz_findById st quizId = Some quiz" and "view_window tz clk quiz = ACTIVE"
    using that assms(2) by (auto simp add: get_quiz_def split: option.split)
  from a b c e show ?thesis
    unfolding p p' g by blast
qed

lemma store1_eq:
  "store1 = store0\<lparr>studentResponses :=
                [\<lparr>resp_student_id = s1_id, resp_quiz_id = quiz1_id,
                  responses = body_responses body_a\<rparr>],
              studentResults :=
                [\<lparr>res_student_id = s1_id, res_quiz_id = quiz1_id, score = 2,
                  submitted_at = during, out_of = 3\<rparr>]\<rparr>"
  unfolding store1_def
  by (simp add: post_quiz_responses_def submit_window_def calculateResults_def
      correctResponses_of_def forEach_body_def arraysEqual_def arraysEqual_from.simps
      body_a_def fixture_defs store_defs date_defs cast_defs)

theorem C9_submission_keyed_on_body_student_id_witness:
  "api_post_quiz_responses isHex24 demo_verify (Some ''Bearer tok-s1'') 0 (at_time during)
     class1_id quiz1_id body_for_s2 store0
   = api_post_quiz_responses isHex24 demo_verify (Some ''Bearer tok-s2'') 0 (at_time during)
     class1_id quiz1_id body_for_s2 store0
   \<and> map resp_student_id (studentResponses (snd
        (api_post_quiz_responses isHex24 demo_verify (Some ''Bearer tok-s1'') 0 (at_time during)
           class1_id quiz1_id body_for_s2 store0)))
      = [s2_id]
   \<and> api_get_quiz demo_verify (Some ''Bearer tok-s1'') 0 (at_time during) class1_id quiz1_id
        store1
      = ErrorReply 403 ''Forbidden - Student has already taken the Quiz !''
   \<and> api_get_quiz demo_verify (Some ''Bearer tok-s2'') 0 (at_time during) class1_id quiz1_id
        store1
      = QuizReply quiz1"
proof -
  have a1: "authenticateToken demo_verify store0 (Some ''Bearer tok-s1'') = Inr student1"
    and a2: "authenticateToken demo_verify store0 (Some ''Bearer tok-s2'') = Inr student2"
    by (simp_all add: authenticateToken_def demo_verify_def student2_def fixture_defs
        store_defs)
  have r1: "role student1 = ''student''" and r2: "role student2 = ''student''"
    by (simp_all add: student2_def fixture_defs)
  have ap: "api_post_quiz_responses isHex24 demo_verify (Some ''Bearer tok-s1'') 0 (at_time during)
              class1_id quiz1_id body_for_s2 store0
            = post_quiz_responses isHex24 0 (at_time during) student1 class1_id quiz1_id body_for_s2
                store0"
    by (simp add: api_post_quiz_responses_def a1)
  have w: "map resp_student_id (studentResponses (snd
        (api_post_quiz_responses isHex24 demo_verify (Some ''Bearer tok-s1'') 0 (at_time during)
           class1_id quiz1_id body_for_s2 store0)))
      = [s2_id]"
    unfolding ap
    by (simp add: post_quiz_responses_def submit_window_def
        calculateResults_def correctResponses_of_def forEach_body_def arraysEqual_def
        arraysEqual_from.simps body_for_s2_def body_a_def fixture_defs store_defs date_defs
        cast_defs)
  have v1: "api_get_quiz demo_verify (Some ''Bearer tok-s1'') 0 (at_time during) class1_id
              quiz1_id store1
      = ErrorReply 403 ''Forbidden - Student has already taken the Quiz !''"
    unfolding store1_eq
    by (simp add: api_get_quiz_def authenticateToken_def demo_verify_def get_quiz_def
        view_window_def fixture_defs store_defs date_defs)
  have v2: "api_get_quiz demo_verify (Some ''Bearer tok-s2'') 0 (at_time during) class1_id
              quiz1_id store1 = QuizReply quiz1"
    unfolding store1_eq
    by (simp add: api_get_quiz_def authenticateToken_def demo_verify_def get_quiz_def
        view_window_def student2_def fixture_defs store_defs date_defs)
  from C9_submission_keyed_on_body_student_id [OF a1 r1 a2 r2, where castable = isHex24
      and tz = 0
      and clk = "at_time during" and classId = class1_id and quizId = quiz1_id
      and body = body_for_s2] w v1 v2
  show ?thesis by blast
qed



section \<open>One attempt per student and quiz\<close>

text \<open>
  A request that is alone in flight goes through its four store operations one after the
  other; the outcome is that of the handler as a whole.
\<close>

lemma four_steps_are_handle:
  assumes "i < length ps" and "snd (ps ! i) = AtFindQuiz"
  shows "interleave castable tz [i, i, i, i] ps st
         = (ps[i := (fst (ps ! i), Replied (fst (handle castable tz (fst (ps ! i)) st)))],
            snd (handle castable tz (fst (ps ! i)) st))"
proof -
  obtain rq where rq: "ps ! i = (rq, AtFindQuiz)"
    using assms(2) by (cases "ps ! i") simp
  show ?thesis
    using assms(1) rq
    by (auto simp add: handle_def post_quiz_responses_def calculateResults_def Let_def
        StudentResponse_save_def StudentResult_save_def valid_studentResponse_def
        valid_studentResult_def
        split: option.split windowState.split dest: collectResponses_Some)
qed

lemma interleave_append:
  "interleave castable tz (xs @ ys) ps st
   = (case interleave castable tz xs ps st of (ps', st') \<Rightarrow> interleave castable tz ys ps' st')"
  by (induction xs arbitrary: ps st) (simp_all split: prod.split)

lemma in_turn_from:
  assumes "length served = k"
  shows "snd (interleave castable tz (concat (map (\<lambda>i. [i, i, i, i]) [k..<k + length rqs]))
                (served @ arrivals rqs) st)
         = submit_in_turn castable tz rqs st"
  using assms
proof (induction rqs arbitrary: served k st)
  case Nil
  then show ?case by simp
next
  case (Cons rq rqs)
  let ?ps = "served @ arrivals (rq # rqs)"
  let ?done = "served @ [(rq, Replied (fst (handle castable tz rq st)))]"
  have at_k: "?ps ! k = (rq, AtFindQuiz)"
    using Cons.prems by (simp add: arrivals_def nth_append)
  have k: "k < length ?ps"
    using Cons.prems by (simp add: arrivals_def)
  have upd: "?ps[k := (rq, Replied (fst (handle castable tz rq st)))] = ?done @ arrivals rqs"
    using Cons.prems by (simp add: arrivals_def list_update_append)
  have four: "interleave castable tz [k, k, k, k] ?ps st = (?done @ arrivals rqs, snd (handle castable tz rq st))"
    using four_steps_are_handle [OF k, where castable = castable and tz = tz and st = st]
      at_k upd by simp
  have "[k..<k + length (rq # rqs)] = k # [Suc k..<Suc k + length rqs]"
    by (subst upt_rec) simp
  then have sched: "concat (map (\<lambda>i. [i, i, i, i]) [k..<k + length (rq # rqs)])
               = [k, k, k, k] @ concat (map (\<lambda>i. [i, i, i, i]) [Suc k..<Suc k + length rqs])"
    by (simp only: list.map concat.simps append.simps)
  have len: "length ?done = Suc k"
    using Cons.prems by simp
  show ?case
    unfolding sched interleave_append four
    using Cons.IH [OF len, of "snd (handle castable tz rq st)"] by simp
qed

lemma filter_key_le_1:
  "distinct (map f xs) \<Longrightarrow> length (filter (\<lambda>x. f x = k) xs) \<le> 1"
proof (induction xs)
  case Nil
  then show ?case by simp
next
  case (Cons x xs)
  show ?case
  proof (cases "f x = k")
    case True
    with Cons.prems have "k \<notin> f ` set xs"
      by simp
    then have "filter (\<lambda>x. f x = k) xs = []"
      by (auto simp add: filter_empty_conv)
    with True show ?thesis by simp
  next
    case False
    with Cons show ?thesis by simp
  qed
qed

lemma one_attempt_counts:
  assumes "one_attempt st"
  shows "responses_of sid qid st \<le> 1" and "results_of sid qid st \<le> 1"
proof -
  have "responses_of sid qid st
        = length (filter (\<lambda>r. (resp_student_id r, resp_quiz_id r) = (sid, qid))
            (studentResponses st))"
    by (simp add: responses_of_def)
  also have "\<dots> \<le> 1"
    using assms unfolding one_attempt_def response_keys_def by (intro filter_key_le_1) simp
  finally show "responses_of sid qid st \<le> 1" .
  have "results_of sid qid st
        = length (filter (\<lambda>r. (res_student_id r, res_quiz_id r) = (sid, qid))
            (studentResults st))"
    by (simp add: results_of_def)
  also have "\<dots> \<le> 1"
    using assms unfolding one_attempt_def result_keys_def by (intro filter_key_le_1) simp
  finally show "results_of sid qid st \<le> 1" .
qed

lemma one_attempt_handle:
  assumes "one_attempt st"
  shows "one_attempt (snd (handle castable tz rq st))"
proof -
  let ?sid = "student_id (req_body rq)" and ?qid = "req_quizId rq"
  from post_quiz_responses_store [of castable tz "req_clock rq" "req_user rq" "req_classId rq" ?qid
      "req_body rq" st]
  consider (same) "snd (handle castable tz rq st) = st"
    | (added) points n where "StudentResponse_findOne st ?sid ?qid = None"
        and "snd (handle castable tz rq st) =
             st\<lparr>studentResponses := studentResponses st @
                   [\<lparr>resp_student_id = ?sid, resp_quiz_id = ?qid,
                     responses = body_responses (req_body rq)\<rparr>],
                studentResults := studentResults st @
                   [\<lparr>res_student_id = ?sid, res_quiz_id = ?qid,
                     score = points, submitted_at = t_save (req_clock rq), out_of = n\<rparr>]\<rparr>"
    unfolding handle_def by blast
  then show ?thesis
  proof cases
    case same
    with assms show ?thesis by simp
  next
    case added
    from added(1) have new: "(?sid, ?qid) \<notin> set (response_keys st)"
      by (auto simp add: StudentResponse_findOne_def response_keys_def find_None_iff)
    with assms have new': "(?sid, ?qid) \<notin> set (result_keys st)"
      by (auto simp add: one_attempt_def)
    from assms new new' show ?thesis
      unfolding added(2) by (auto simp add: one_attempt_def response_keys_def result_keys_def)
  qed
qed

text \<open>
  C8, as stated: at most one StudentResponse and one StudentResult per student and quiz,
  also when submissions overlap. It fails: let the same submission arrive twice during
  the quiz and let the store serve the two requests alternately. Both pass the duplicate
  test before either has saved, both are scored, and the store ends with two responses
  and two results of the first student for \<open>quiz1\<close>.
\<close>

theorem C8_overlapping_submissions_counterexample:
  "one_attempt store0
   \<and> map snd (fst (interleave isHex24 0 [0, 1, 0, 1, 0, 1, 0, 1]
                     (arrivals [request_a, request_a]) store0))
     = [Replied (SubmitReply 2 3), Replied (SubmitReply 2 3)]
   \<and> responses_of s1_id quiz1_id
        (snd (interleave isHex24 0 [0, 1, 0, 1, 0, 1, 0, 1]
                (arrivals [request_a, request_a]) store0)) = 2
   \<and> results_of s1_id quiz1_id
        (snd (interleave isHex24 0 [0, 1, 0, 1, 0, 1, 0, 1]
                (arrivals [request_a, request_a]) store0)) = 2"
  by (simp add: one_attempt_def response_keys_def result_keys_def responses_of_def
      results_of_def submit_window_def correctResponses_of_def forEach_body_def
      arraysEqual_def arraysEqual_from.simps arrivals_def request_a_def body_a_def
      Let_def fixture_defs store_defs date_defs cast_defs)

text \<open>
  C8, amended: let the store hold no two StudentResponses and no two StudentResults of
  the same student and quiz, and let every StudentResult have a StudentResponse of its
  student and quiz. When the submissions are handled in turn, each replying before the
  next starts, the store stays so: for every student and quiz there is at most one
  StudentResponse and at most one StudentResult.
  The store they leave is the one the in-turn schedule of the overlapping model leaves.
\<close>

theorem C8_one_attempt_when_handled_in_turn:
  assumes "one_attempt st"
  shows "snd (interleave castable tz (in_turn (length rqs)) (arrivals rqs) st) = submit_in_turn castable tz rqs st
    \<and> one_attempt (submit_in_turn castable tz rqs st)
    \<and> responses_of sid qid (submit_in_turn castable tz rqs st) \<le> 1
    \<and> results_of sid qid (submit_in_turn castable tz rqs st) \<le> 1"
proof -
  have sched: "snd (interleave castable tz (in_turn (length rqs)) (arrivals rqs) st)
               = submit_in_turn castable tz rqs st"
    using in_turn_from [where served = "[]" and k = 0 and castable = castable and tz = tz
        and rqs = rqs and st = st]
    by (simp add: in_turn_def)
  from assms have "one_attempt (submit_in_turn castable tz rqs st)"
  proof (induction rqs arbitrary: st)
    case Nil
    then show ?case by simp
  next
    case (Cons rq rqs)
    from Cons.prems have "one_attempt (snd (handle castable tz rq st))"
      by (rule one_attempt_handle)
    then show ?case by (simp add: Cons.IH)
  qed
  with sched show ?thesis
    using one_attempt_counts [of "submit_in_turn castable tz rqs st" sid qid] by simp
qed

theorem C8_one_attempt_when_handled_in_turn_witness:
  "one_attempt store0
   \<and> responses_of s1_id quiz1_id (submit_in_turn isHex24 0 [request_a, request_a] store0) = 1
   \<and> results_of s1_id quiz1_id (submit_in_turn isHex24 0 [request_a, request_a] store0) = 1"
proof -
  have i: "one_attempt store0"
    by (simp add: one_attempt_def response_keys_def result_keys_def store0_def)
  have "1 \<le> responses_of s1_id quiz1_id (submit_in_turn isHex24 0 [request_a, request_a] store0)
        \<and> 1 \<le> results_of s1_id quiz1_id (submit_in_turn isHex24 0 [request_a, request_a] store0)"
    by (simp add: responses_of_def results_of_def handle_def post_quiz_responses_def
        calculateResults_def submit_window_def correctResponses_of_def forEach_body_def
        arraysEqual_def arraysEqual_from.simps request_a_def body_a_def fixture_defs
        store_defs date_defs cast_defs)
  with C8_one_attempt_when_handled_in_turn [OF i, where castable = isHex24 and sid = s1_id
      and qid = quiz1_id and tz = 0 and rqs = "[request_a, request_a]"] i
  show ?thesis by simp
qed

end
